theory Spec2Isabelle
  imports Main "HOL-Library.AList"
begin

section \<open>Shared base: SubscribableBase and the error channel\<close>

text \<open>
  Errors are JavaScript \<open>Error\<close> values; only their message is observable here.
  The error channel (\<open>errorSubject\<close>) is a sink: pushing onto it is an effect.
\<close>

type_synonym error = string

text \<open>
  Every stateful class of the package extends \<open>SubscribableBase\<close>, of which the
  classes below read one field, \<open>isCanceled\<close>.
\<close>

record subscribableBase =
  isCanceled :: bool

text \<open>
  Modelled from the spec: \<open>SubscribableBase.cancel\<close> (./subscribable-base is not among
  the sources). The spec calls it terminal and idempotent; the one thing the classes
  below read back is the flag.
\<close>

definition cancel :: "'a subscribableBase_scheme \<Rightarrow> 'a subscribableBase_scheme" where
  "cancel x = x\<lparr>isCanceled := True\<rparr>"

section \<open>QueryReplicationState (src/src/query-replication-state.ts)\<close>

text \<open>
  The two HTTP calls of the class: \<open>fetchUnsyncedRemoteIDs\<close> posts \<open>{include, exclude}\<close>
  (either may be \<open>undefined\<close>), \<open>fetchLastModified\<close> gets with \<open>modified_after\<close>.
\<close>

datatype ('i, 't) request =
    Post "'i list option" "'i list option"
  | Get 't

text \<open>What one fetch cycle does to the outside world, in order.\<close>

datatype ('i, 't, 'p) effect =
    ActiveNext bool
  | Http "('i, 't) request"
  | CollectionFetchUnsynced
  | BulkUpsert "'p list"
  | ErrorNext error

text \<open>
  The fields of the class: the endpoint, the name of its collection, a reference to the
  owning collection replication, the two BehaviorSubjects \<open>paused\<close> (initially true) and
  \<open>active\<close> (initially false) by their current values, and \<open>syncCompleted\<close>.
\<close>

record queryReplicationState = subscribableBase +
  endpoint :: string
  collection :: string
  collectionReplication :: nat
  paused :: bool
  active :: bool
  syncCompleted :: bool

text \<open>
  What the collaborators answer during one cycle.

  Modelled from the spec: \<open>getUnsyncedRemoteIDs\<close>, \<open>getSyncedRemoteIDs\<close> and the
  \<open>lastModified\<close> cursor of the owning CollectionReplicationState
  (./collection-replication-state is not among the sources). The spec has them compute
  the two ID sets and expose the cursor; the cycle reads them before its \<open>try\<close>
  block, and their values are inputs here.

  The HTTP client may reject (\<open>Inl\<close>), or answer with a body whose \<open>data\<close> is not an
  array (\<open>Inr None\<close>) or is one (\<open>Inr (Some docs)\<close>). \<open>parseRestResponse\<close> may
  throw, \<open>upsertRefs\<close> and \<open>bulkUpsert\<close> may reject.
\<close>

record ('i, 't, 'd, 'p) collaborators =
  getUnsyncedRemoteIDs :: "'i list"
  getSyncedRemoteIDs :: "'i list"
  lastModified :: 't
  httpClient :: "('i, 't) request \<Rightarrow> error + 'd list option"
  parseRestResponse :: "'d \<Rightarrow> error + 'p"
  upsertRefs :: "'p \<Rightarrow> error + 'p"
  bulkUpsert :: "'p list \<Rightarrow> error option"

definition isStopped :: "'a queryReplicationState_scheme \<Rightarrow> bool" where
  "isStopped s = (isCanceled s \<or> paused s)"



definition fetchUnsyncedRemoteIDs ::
  "('i, 't, 'd, 'p) collaborators \<Rightarrow> 'i list option \<Rightarrow> 'i list option
    \<Rightarrow> (error + 'd list option) \<times> ('i, 't, 'p) effect list" where
  "fetchUnsyncedRemoteIDs c include exclude =
     (httpClient c (Post include exclude), [Http (Post include exclude)])"

definition fetchLastModified ::
  "('i, 't, 'd, 'p) collaborators \<Rightarrow> 't
    \<Rightarrow> (error + 'd list option) \<times> ('i, 't, 'p) effect list" where
  "fetchLastModified c lm = (httpClient c (Get lm), [Http (Get lm)])"

text \<open>
  The callback mapped over \<open>response.data\<close>: parse, then \<open>upsertRefs\<close> on the parsed
  record, which is returned.
\<close>

definition processDoc :: "('i, 't, 'd, 'p) collaborators \<Rightarrow> 'd \<Rightarrow> error + 'p" where
  "processDoc c doc =
     (case parseRestResponse c doc of
        Inl e \<Rightarrow> Inl e
      | Inr parsedData \<Rightarrow> upsertRefs c parsedData)"

text \<open>
  \<open>Promise.all\<close>: all results in order, or a rejection when some promise rejects. Which
  rejection wins when several promises fail is a matter of timing; the first in list order
  is taken here, and no theorem below depends on that choice.
\<close>

fun promiseAll :: "(error + 'a) list \<Rightarrow> error + 'a list" where
  "promiseAll [] = Inr []"
| "promiseAll (Inl e # rs) = Inl e"
| "promiseAll (Inr x # rs) =
     (case promiseAll rs of Inl e \<Rightarrow> Inl e | Inr xs \<Rightarrow> Inr (x # xs))"

text \<open>
  The body of the \<open>try\<close> block, in its two halves. First the request (lines 117-127):
  by cursor when there is nothing to include, else by the shorter of the two ID lists,
  \<open>exclude\<close> only when it is strictly shorter.
\<close>

definition sendRequest ::
  "('i, 't, 'd, 'p) collaborators \<Rightarrow> 'i list \<Rightarrow> 'i list \<Rightarrow> 't
    \<Rightarrow> (error + 'd list option) \<times> ('i, 't, 'p) effect list" where
  "sendRequest c include exclude lm =
     (if include = [] then fetchLastModified c lm
      else if length exclude < length include
           then fetchUnsyncedRemoteIDs c None (Some exclude)
           else fetchUnsyncedRemoteIDs c (Some include) None)"

text \<open>
  Then the response (lines 129-145): the array check, the \<open>syncCompleted\<close> latch on an
  empty page, parsing, and the bulk upsert. \<open>Inl e\<close> is an exception leaving the block
  with the state and effects reached so far.
\<close>

definition upsertDocuments ::
  "('i, 't, 'd, 'p) collaborators \<Rightarrow> 'd list
    \<Rightarrow> (error + unit) \<times> ('i, 't, 'p) effect list" where
  "upsertDocuments c data =
     (case promiseAll (map (processDoc c) data) of
        Inl e \<Rightarrow> (Inl e, [])
      | Inr documents \<Rightarrow>
          (case bulkUpsert c documents of
             Some e \<Rightarrow> (Inl e, [BulkUpsert documents])
           | None \<Rightarrow> (Inr (), [BulkUpsert documents])))"

definition handleResponse ::
  "('i, 't, 'd, 'p) collaborators \<Rightarrow> 'd list option \<Rightarrow> 'a queryReplicationState_scheme
    \<Rightarrow> (error + unit) \<times> 'a queryReplicationState_scheme \<times> ('i, 't, 'p) effect list" where
  "handleResponse c response s =
     (case response of
        None \<Rightarrow> (Inl ''Invalid response data for query replication'', s, [])
      | Some data \<Rightarrow>
          (let s1 = (if data = [] then s\<lparr>syncCompleted := True\<rparr> else s)
           in (fst (upsertDocuments c data), s1, snd (upsertDocuments c data))))"

definition tryBlock ::
  "('i, 't, 'd, 'p) collaborators \<Rightarrow> 'i list \<Rightarrow> 'i list \<Rightarrow> 't
    \<Rightarrow> 'a queryReplicationState_scheme
    \<Rightarrow> (error + unit) \<times> 'a queryReplicationState_scheme \<times> ('i, 't, 'p) effect list" where
  "tryBlock c include exclude lm s =
     (case fst (sendRequest c include exclude lm) of
        Inl e \<Rightarrow> (Inl e, s, snd (sendRequest c include exclude lm))
      | Inr response \<Rightarrow>
          (case handleResponse c response s of
             (r, s1, t) \<Rightarrow> (r, s1, snd (sendRequest c include exclude lm) @ t)))"

text \<open>
  One call of \<open>fetchUnsynced\<close>, run to completion: the guard, the delegation to the
  collection replication once \<open>syncCompleted\<close>, and \<open>try / catch / finally\<close>. The catch
  clause pushes the error onto the error channel and does not rethrow; the finally clause
  clears \<open>active\<close>.
\<close>

definition fetchUnsynced ::
  "('i, 't, 'd, 'p) collaborators \<Rightarrow> 'a queryReplicationState_scheme
    \<Rightarrow> 'a queryReplicationState_scheme \<times> ('i, 't, 'p) effect list" where
  "fetchUnsynced c s =
     (if isStopped s \<or> active s then (s, [])
      else
        let s1 = s\<lparr>active := True\<rparr>;
            include = getUnsyncedRemoteIDs c;
            exclude = getSyncedRemoteIDs c;
            lm = lastModified c
        in if syncCompleted s1
           then (s1\<lparr>active := False\<rparr>, [ActiveNext True, ActiveNext False, CollectionFetchUnsynced])
           else
             (case tryBlock c include exclude lm s1 of
                (Inl e, s2, t) \<Rightarrow>
                  (s2\<lparr>active := False\<rparr>, ActiveNext True # t @ [ErrorNext e, ActiveNext False])
              | (Inr u, s2, t) \<Rightarrow>
                  (s2\<lparr>active := False\<rparr>, ActiveNext True # t @ [ActiveNext False])))"

text \<open>The requests a cycle sends, and the errors it pushes.\<close>

definition requests :: "('i, 't, 'p) effect list \<Rightarrow> ('i, 't) request list" where
  "requests t = concat (map (\<lambda>e. case e of Http r \<Rightarrow> [r] | _ \<Rightarrow> []) t)"

definition errorsPushed :: "('i, 't, 'p) effect list \<Rightarrow> error list" where
  "errorsPushed t = concat (map (\<lambda>e. case e of ErrorNext x \<Rightarrow> [x] | _ \<Rightarrow> []) t)"




subsection \<open>A replication state and collaborators to compute with\<close>

text \<open>
  A running, idle replication state that has not yet exhausted its own sync, and
  collaborators that list the given unsynced and synced remote IDs, answer every request
  with the given response, and parse and upsert without failure.
\<close>

definition exampleReplication :: queryReplicationState where
  "exampleReplication =
     \<lparr>isCanceled = False, endpoint = ''products?per_page=10'', collection = ''products'',
      collectionReplication = 0, paused = False, active = False, syncCompleted = False\<rparr>"

definition exampleCollaborators ::
  "nat list \<Rightarrow> nat list \<Rightarrow> error + nat list option \<Rightarrow> (nat, nat, nat, nat) collaborators" where
  "exampleCollaborators unsynced synced response =
     \<lparr>getUnsyncedRemoteIDs = unsynced, getSyncedRemoteIDs = synced, lastModified = 7,
      httpClient = (\<lambda>r. response), parseRestResponse = Inr, upsertRefs = Inr,
      bulkUpsert = (\<lambda>documents. None)\<rparr>"

section \<open>Query (src/src/query-state.ts, and its later revision in src/unnamed/part_000)\<close>

subsection \<open>JavaScript values and objects\<close>

text \<open>
  Parameters, selectors, filter values and documents are plain JavaScript data. An object
  is its list of own properties in insertion order; assigning to a property replaces the
  value in place when the key exists and appends it otherwise, which is what
  \<open>AList.update\<close> does. A missing property reads as \<open>undefined\<close>.
\<close>

datatype json =
    JUndefined
  | JNull
  | JBool bool
  | JNum int
  | JStr string
  | JArr "json list"
  | JObj "(string \<times> json) list"

type_synonym obj = "(string \<times> json) list"

definition getProp :: "obj \<Rightarrow> string \<Rightarrow> json" where
  "getProp ob k = (case map_of ob k of None \<Rightarrow> JUndefined | Some v \<Rightarrow> v)"

fun truthy :: "json \<Rightarrow> bool" where
  "truthy JUndefined = False"
| "truthy JNull = False"
| "truthy (JBool b) = b"
| "truthy (JNum n) = (n \<noteq> 0)"
| "truthy (JStr t) = (t \<noteq> [])"
| "truthy (JArr xs) = True"
| "truthy (JObj kvs) = True"

text \<open>
  Object spread \<open>{...a, ...b}\<close>: the properties of \<open>a\<close>, then those of \<open>b\<close>
  assigned in order.
\<close>

definition spread :: "obj \<Rightarrow> obj \<Rightarrow> obj" where
  "spread a b = fold (\<lambda>kv. AList.update (fst kv) (snd kv)) b a"



subsection \<open>Data of the query\<close>

record whereClause =
  field :: string
  val :: json

text \<open>
  A hit of the search service (\<open>id\<close>, \<open>score\<close> and the search lineage fields), and a
  hit of a result, which adds the document. Scores are numbers that are only ever
  compared with \<open>===\<close>; their type is left open.
\<close>

record 's searchHit =
  hitId :: json
  score :: "'s option"
  childrenSearchCount :: "nat option"
  parentSearchTerm :: "string option"

record 's hit = "'s searchHit" +
  document :: obj

text \<open>
  What the two evaluation paths return, and the published result, which is
  \<open>{elapsed, ...result}\<close>. Elapsed time is a number of milliseconds.
\<close>

record 's pathResult =
  searchActive :: bool
  searchTerm :: json
  count :: nat
  hits :: "'s hit list"

record 's queryResult = "'s pathResult" +
  elapsed :: nat

text \<open>
  The state of a query. \<open>subjects.params\<close> is a BehaviorSubject: \<open>paramsLog\<close> holds
  every value passed to its \<open>next\<close>, oldest first, so its current value is the last
  one; the constructor pushes the initial parameters before anything subscribes.
\<close>

record query = subscribableBase +
  queryId :: "string option"
  collectionName :: string
  queryEndpoint :: string
  greedy :: bool
  whereClauses :: "whereClause list"
  paramsLog :: "obj list"

text \<open>
  What a query evaluates against: its hooks, and the emissions of the collection, of the
  search service (first file) or search instance (later revision), the sorting library
  and the clock. \<open>clock n\<close> is the time the \<open>n\<close>-th evaluation takes.
\<close>

record 's queryEnv =
  preQueryParams :: "(obj \<Rightarrow> obj) option"
  postQueryResult :: "(obj list \<Rightarrow> obj \<Rightarrow> obj \<Rightarrow> obj list) option"
  primaryKey :: string
  collectionFind :: "json \<Rightarrow> obj list"
  searchService :: "string \<Rightarrow> 's searchHit list"
  searchInstanceFind :: "string \<Rightarrow> obj list"
  orderBy :: "obj list \<Rightarrow> json \<Rightarrow> json \<Rightarrow> obj list"
  jsonStringify :: "obj \<Rightarrow> string"
  clock :: "nat \<Rightarrow> nat"

subsection \<open>Parameters\<close>

definition getParams :: "'a query_scheme \<Rightarrow> obj option" where
  "getParams q = (if paramsLog q = [] then None else Some (last (paramsLog q)))"

definition currentParams :: "'a query_scheme \<Rightarrow> obj" where
  "currentParams q = (case getParams q of None \<Rightarrow> [] | Some p \<Rightarrow> p)"

definition paramsNext :: "obj \<Rightarrow> 'a query_scheme \<Rightarrow> 'a query_scheme" where
  "paramsNext p q = q\<lparr>paramsLog := paramsLog q @ [p]\<rparr>"

text \<open>
  \<open>updateParams\<close> of the first file: the selector is the object built by assigning
  each clause's value to its field, in clause order.
\<close>

definition selectorOf :: "whereClause list \<Rightarrow> obj" where
  "selectorOf clauses = fold (\<lambda>clause acc. AList.update (field clause) (val clause) acc) clauses []"

definition updateParams :: "obj \<Rightarrow> 'a query_scheme \<Rightarrow> 'a query_scheme" where
  "updateParams additionalParams q =
     (let selector = selectorOf (whereClauses q);
          newParams = spread (spread (currentParams q) additionalParams) [(''selector'', JObj selector)]
      in paramsNext newParams q)"

text \<open>
  \<open>updateParams\<close> of the later revision: the selector is \<open>{$and: [...]}\<close> with one
  single-property object per clause, or \<open>{}\<close> when there is no clause.
\<close>

definition andSelectorOf :: "whereClause list \<Rightarrow> obj" where
  "andSelectorOf clauses =
     (let andClauses = map (\<lambda>clause. JObj [(field clause, val clause)]) clauses
      in if length andClauses > 0 then [(''$and'', JArr andClauses)] else [])"

definition updateParams2 :: "obj \<Rightarrow> 'a query_scheme \<Rightarrow> 'a query_scheme" where
  "updateParams2 additionalParams q =
     (let selector = andSelectorOf (whereClauses q);
          newParams = spread (spread (currentParams q) additionalParams) [(''selector'', JObj selector)]
      in paramsNext newParams q)"

subsection \<open>Mutation methods\<close>

text \<open>
  \<open>where\<close> of the first file. \<open>existingClause.value = value\<close> assigns to the first
  clause with that field, which is the one \<open>Array.find\<close> returns.
\<close>

fun assignFirst :: "string \<Rightarrow> json \<Rightarrow> whereClause list \<Rightarrow> whereClause list" where
  "assignFirst f v [] = []"
| "assignFirst f v (clause # clauses) =
     (if field clause = f then clause\<lparr>val := v\<rparr> # clauses
      else clause # assignFirst f v clauses)"

definition where_q :: "string \<Rightarrow> json \<Rightarrow> 'a query_scheme \<Rightarrow> 'a query_scheme" where
  "where_q f v q =
     updateParams []
       (if v = JUndefined \<or> v = JNull
        then q\<lparr>whereClauses := filter (\<lambda>clause. field clause \<noteq> f) (whereClauses q)\<rparr>
        else (case find (\<lambda>clause. field clause = f) (whereClauses q) of
                Some existingClause \<Rightarrow> q\<lparr>whereClauses := assignFirst f v (whereClauses q)\<rparr>
              | None \<Rightarrow> q\<lparr>whereClauses := whereClauses q @ [\<lparr>field = f, val = v\<rparr>]\<rparr>))"

text \<open>
  \<open>where\<close> of the later revision pushes the clause and hands the list to
  \<open>normalizeWhereClauses\<close> of ./utils, which is not among the sources and is a
  parameter here.
\<close>

definition where2 ::
  "(whereClause list \<Rightarrow> whereClause list) \<Rightarrow> string \<Rightarrow> json \<Rightarrow> 'a query_scheme \<Rightarrow> 'a query_scheme" where
  "where2 normalizeWhereClauses f v q =
     updateParams2 []
       (q\<lparr>whereClauses := normalizeWhereClauses (whereClauses q @ [\<lparr>field = f, val = v\<rparr>])\<rparr>)"

text \<open>
  \<open>sort\<close> takes a field and a direction, or an object of which the last property wins.
  \<open>Object.entries(x).pop()\<close> is \<open>undefined\<close> for an object without properties, and
  destructuring it throws a TypeError.
\<close>

datatype sortArgs =
    SortBy string json
  | SortObj obj

fun sortParams :: "sortArgs \<Rightarrow> error + obj" where
  "sortParams (SortBy sortBy sortDirection) =
     Inr [(''sortBy'', JStr sortBy), (''sortDirection'', sortDirection)]"
| "sortParams (SortObj sortObj) =
     (if sortObj = [] then Inl ''TypeError: undefined is not iterable''
      else Inr [(''sortBy'', JStr (fst (last sortObj))), (''sortDirection'', snd (last sortObj))])"

definition sort_q :: "sortArgs \<Rightarrow> 'a query_scheme \<Rightarrow> error + 'a query_scheme" where
  "sort_q args q =
     (case sortParams args of Inl e \<Rightarrow> Inl e | Inr additional \<Rightarrow> Inr (updateParams additional q))"

definition sort_q2 :: "sortArgs \<Rightarrow> 'a query_scheme \<Rightarrow> error + 'a query_scheme" where
  "sort_q2 args q =
     (case sortParams args of Inl e \<Rightarrow> Inl e | Inr additional \<Rightarrow> Inr (updateParams2 additional q))"

text \<open>\<open>search(query = '')\<close>: the default applies to \<open>undefined\<close> only.\<close>

definition search_q :: "json \<Rightarrow> 'a query_scheme \<Rightarrow> 'a query_scheme" where
  "search_q query q =
     updateParams [(''search'', if query = JUndefined then JStr [] else query)] q"

definition search_q2 :: "json \<Rightarrow> 'a query_scheme \<Rightarrow> 'a query_scheme" where
  "search_q2 query q =
     updateParams2 [(''search'', if query = JUndefined then JStr [] else query)] q"

subsection \<open>Evaluation\<close>

definition selectorOrEmpty :: "obj \<Rightarrow> json" where
  "selectorOrEmpty modifiedParams =
     (if truthy (getProp modifiedParams ''selector'') then getProp modifiedParams ''selector'' else JObj [])"

text \<open>
  The search-active path of the first file: each hit of the search service gets the
  document with its id, and hits without a document are dropped.
\<close>

definition attachDocument :: "string \<Rightarrow> obj list \<Rightarrow> 's searchHit \<Rightarrow> 's hit option" where
  "attachDocument pk docs h =
     (case find (\<lambda>doc. getProp doc pk = hitId h) docs of
        None \<Rightarrow> None
      | Some doc \<Rightarrow>
          Some \<lparr>hitId = hitId h, score = score h, childrenSearchCount = childrenSearchCount h,
                parentSearchTerm = parentSearchTerm h, document = doc\<rparr>)"

definition handleSearchActive :: "'s queryEnv \<Rightarrow> obj \<Rightarrow> 's pathResult" where
  "handleSearchActive env modifiedParams =
     (let searchResults =
            searchService env (case getProp modifiedParams ''search'' of JStr t \<Rightarrow> t | _ \<Rightarrow> []);
          docs = collectionFind env (selectorOrEmpty modifiedParams);
          filteredAndSortedDocs =
            List.map_filter (attachDocument (primaryKey env) docs) searchResults
      in \<lparr>searchActive = True, searchTerm = getProp modifiedParams ''search'',
          count = length filteredAndSortedDocs, hits = filteredAndSortedDocs\<rparr>)"

text \<open>
  The search-active path of the later revision: the documents found by the search
  instance give the uuids, the selector is restricted to them, and the collection's
  documents are put in the order of the uuids.
\<close>

definition restrictToUuids :: "json \<Rightarrow> json list \<Rightarrow> json" where
  "restrictToUuids selector uuids =
     (case selector of
        JObj kvs \<Rightarrow> JObj (AList.update ''uuid'' (JObj [(''$in'', JArr uuids)]) kvs)
      | other \<Rightarrow> other)"

definition handleSearchActive2 :: "'s queryEnv \<Rightarrow> obj \<Rightarrow> 's pathResult" where
  "handleSearchActive2 env modifiedParams =
     (let searchResults =
            searchInstanceFind env (case getProp modifiedParams ''search'' of JStr t \<Rightarrow> t | _ \<Rightarrow> []);
          uuids = map (\<lambda>doc. getProp doc ''uuid'') searchResults;
          selector = restrictToUuids (selectorOrEmpty modifiedParams) uuids;
          docs = collectionFind env selector;
          sortedDocs = List.map_filter (\<lambda>uuid. find (\<lambda>doc. getProp doc ''uuid'' = uuid) docs) uuids
      in \<lparr>searchActive = True, searchTerm = getProp modifiedParams ''search'',
          count = length sortedDocs,
          hits = map (\<lambda>doc. \<lparr>hitId = getProp doc ''uuid'', score = None, childrenSearchCount = None,
                              parentSearchTerm = None, document = doc\<rparr>) sortedDocs\<rparr>)"

text \<open>The search-inactive path, the same in both files.\<close>

definition handleSearchInactive :: "'s queryEnv \<Rightarrow> obj \<Rightarrow> obj \<Rightarrow> 's pathResult" where
  "handleSearchInactive env modifiedParams originalParams =
     (let docs = collectionFind env (selectorOrEmpty modifiedParams);
          sortBy = getProp modifiedParams ''sortBy'';
          sortDirection = getProp modifiedParams ''sortDirection'';
          sorted = (if truthy sortBy \<and> truthy sortDirection
                    then orderBy env docs sortBy sortDirection else docs);
          filteredAndSortedDocs =
            (case postQueryResult env of
               Some hook \<Rightarrow> hook sorted modifiedParams originalParams
             | None \<Rightarrow> sorted)
      in \<lparr>searchActive = False, searchTerm = JUndefined,
          count = length filteredAndSortedDocs,
          hits = map (\<lambda>doc. \<lparr>hitId = getProp doc (primaryKey env), score = None,
                              childrenSearchCount = None, parentSearchTerm = None,
                              document = doc\<rparr>) filteredAndSortedDocs\<rparr>)"

text \<open>
  The callback of \<open>switchMap\<close> in \<open>find$\<close>: clone, pre-hook, choice of path, and the
  stamp of elapsed time. The first argument is the path taken when search is active.
\<close>

definition isSearchActive :: "obj \<Rightarrow> bool" where
  "isSearchActive modifiedParams =
     (case getProp modifiedParams ''search'' of JStr t \<Rightarrow> t \<noteq> [] | _ \<Rightarrow> False)"

definition evaluateWith ::
  "('s queryEnv \<Rightarrow> obj \<Rightarrow> 's pathResult) \<Rightarrow> 's queryEnv \<Rightarrow> nat \<Rightarrow> obj \<Rightarrow> 's queryResult" where
  "evaluateWith searchPath env n params =
     (let modifiedParams = (case preQueryParams env of Some hook \<Rightarrow> hook params | None \<Rightarrow> params);
          result = (if isSearchActive modifiedParams then searchPath env modifiedParams
                    else handleSearchInactive env modifiedParams params)
      in \<lparr>searchActive = searchActive result, searchTerm = searchTerm result,
          count = count result, hits = hits result, elapsed = clock env n\<rparr>)"

subsection \<open>Streams\<close>

text \<open>
  A stream is the list of its emissions. \<open>distinctUntilChanged(comparator)\<close> lets the
  first value through and then every value that the comparator does not find equal to
  the last value let through.
\<close>

fun distinctFrom :: "('a \<Rightarrow> 'a \<Rightarrow> bool) \<Rightarrow> 'a \<Rightarrow> 'a list \<Rightarrow> 'a list" where
  "distinctFrom eq prev [] = []"
| "distinctFrom eq prev (x # xs) =
     (if eq prev x then distinctFrom eq prev xs else x # distinctFrom eq x xs)"

fun distinctUntilChanged :: "('a \<Rightarrow> 'a \<Rightarrow> bool) \<Rightarrow> 'a list \<Rightarrow> 'a list" where
  "distinctUntilChanged eq [] = []"
| "distinctUntilChanged eq (x # xs) = x # distinctFrom eq x xs"

text \<open>The comparator on results, in the constructor of both files.\<close>

definition childrenAreEqual :: "'s hit list \<Rightarrow> 's hit list \<Rightarrow> bool" where
  "childrenAreEqual prevHits nextHits =
     list_all (\<lambda>index.
         let hit = prevHits ! index; nextHit = nextHits ! index
         in parentSearchTerm hit = parentSearchTerm nextHit \<and>
            childrenSearchCount hit = childrenSearchCount nextHit \<and>
            score hit = score nextHit)
       [0..<length prevHits]"

definition resultComparator :: "'s queryResult \<Rightarrow> 's queryResult \<Rightarrow> bool" where
  "resultComparator prev next =
     (if searchActive prev \<noteq> searchActive next \<or> searchTerm prev \<noteq> searchTerm next then False
      else
        let idsAreEqual = (map hitId (hits prev) = map hitId (hits next))
        in idsAreEqual \<and>
           (if idsAreEqual \<and> searchActive next then childrenAreEqual (hits prev) (hits next)
            else True))"

text \<open>
  The pipelines. In the first file \<open>params$\<close> is the subject itself and every push is
  evaluated; in the later revision \<open>params$\<close> drops a value whose \<open>JSON.stringify\<close>
  equals that of the value before. Each value that reaches \<open>find$\<close> is evaluated once
  against the environment, and \<open>result$\<close> carries what the comparator lets through.
\<close>

definition paramsStream :: "'a query_scheme \<Rightarrow> obj list" where
  "paramsStream q = paramsLog q"

definition paramsStream2 :: "'s queryEnv \<Rightarrow> 'a query_scheme \<Rightarrow> obj list" where
  "paramsStream2 env q =
     distinctUntilChanged (\<lambda>prev next. jsonStringify env prev = jsonStringify env next) (paramsLog q)"

definition findStream ::
  "('s queryEnv \<Rightarrow> obj \<Rightarrow> 's pathResult) \<Rightarrow> 's queryEnv \<Rightarrow> obj list \<Rightarrow> 's queryResult list" where
  "findStream searchPath env ps =
     map (\<lambda>np. evaluateWith searchPath env (fst np) (snd np)) (enumerate 0 ps)"

definition resultStream :: "'s queryEnv \<Rightarrow> 'a query_scheme \<Rightarrow> 's queryResult list" where
  "resultStream env q =
     distinctUntilChanged resultComparator (findStream handleSearchActive env (paramsStream q))"

definition resultStream2 :: "'s queryEnv \<Rightarrow> 'a query_scheme \<Rightarrow> 's queryResult list" where
  "resultStream2 env q =
     distinctUntilChanged resultComparator
       (findStream handleSearchActive2 env (paramsStream2 env q))"


subsection \<open>A query and an environment to compute with\<close>

text \<open>
  Three products; a search that ranks cheese before milk and also returns an id the
  collection does not hold; a post-query hook that drops bread; sorting that reverses
  for \<open>desc\<close>; a clock that ticks with every evaluation.
\<close>

definition exampleDocs :: "obj list" where
  "exampleDocs =
     [[(''uuid'', JStr ''a''), (''name'', JStr ''milk'')],
      [(''uuid'', JStr ''b''), (''name'', JStr ''bread'')],
      [(''uuid'', JStr ''c''), (''name'', JStr ''cheese'')]]"

definition exampleSearchHits :: "nat searchHit list" where
  "exampleSearchHits =
     [\<lparr>hitId = JStr ''c'', score = Some 9, childrenSearchCount = Some 2, parentSearchTerm = None\<rparr>,
      \<lparr>hitId = JStr ''z'', score = Some 7, childrenSearchCount = None, parentSearchTerm = None\<rparr>,
      \<lparr>hitId = JStr ''a'', score = Some 5, childrenSearchCount = None, parentSearchTerm = Some ''mi''\<rparr>]"

definition exampleEnv :: "nat queryEnv" where
  "exampleEnv =
     \<lparr>preQueryParams = None,
      postQueryResult = Some (\<lambda>docs modifiedParams originalParams.
                          filter (\<lambda>doc. getProp doc ''name'' \<noteq> JStr ''bread'') docs),
      primaryKey = ''uuid'',
      collectionFind = (\<lambda>selector. exampleDocs),
      searchService = (\<lambda>text. exampleSearchHits),
      searchInstanceFind = (\<lambda>text. [[(''uuid'', JStr ''c'')], [(''uuid'', JStr ''z'')], [(''uuid'', JStr ''a'')]]),
      orderBy = (\<lambda>docs sortBy sortDirection. if sortDirection = JStr ''desc'' then rev docs else docs),
      jsonStringify = (\<lambda>params. concat (map fst params)),
      clock = (\<lambda>n. Suc n)\<rparr>"

definition exampleQuery :: query where
  "exampleQuery =
     \<lparr>isCanceled = False, queryId = Some ''products'', collectionName = ''products'',
      queryEndpoint = ''products'', greedy = False,
      whereClauses = [\<lparr>field = ''category'', val = JStr ''dairy''\<rparr>,
                      \<lparr>field = ''stock'', val = JBool True\<rparr>],
      paramsLog = [[(''sortBy'', JStr ''name''), (''sortDirection'', JStr ''asc''),
                    (''selector'', JObj [(''category'', JStr ''dairy''), (''stock'', JBool True)])]]\<rparr>"


definition exampleParams :: obj where
  "exampleParams =
     [(''sortBy'', JStr ''name''), (''sortDirection'', JStr ''asc''),
      (''selector'', JObj [(''category'', JStr ''dairy''), (''stock'', JBool True)])]"

section \<open>Manager (src/unnamed/part_000, first part)\<close>

subsection \<open>Objects and registries\<close>

text \<open>
  Queries and replication states are objects that several registries refer to, so they
  live in a heap and the registries hold references. An object stays in the heap when a
  registry drops it. \<open>instanceof\<close> is the constructor of \<open>replicationState\<close>.

  Modelled from the spec: \<open>CollectionReplicationState\<close> (./collection-replication-state
  is not among the sources). The spec gives every replication state an endpoint, a
  collection and a paused flag, and lets \<open>start\<close> resume it.
\<close>

type_synonym ref = nat

record collectionReplicationState = subscribableBase +
  crEndpoint :: string
  crCollection :: string
  crPaused :: bool

datatype replicationState =
    CollectionReplication collectionReplicationState
  | QueryReplication queryReplicationState





fun cancelReplication :: "replicationState \<Rightarrow> replicationState" where
  "cancelReplication (CollectionReplication s) = CollectionReplication (cancel s)"
| "cancelReplication (QueryReplication s) = QueryReplication (cancel s)"

fun isCollectionReplication :: "replicationState \<Rightarrow> bool" where
  "isCollectionReplication (CollectionReplication s) = True"
| "isCollectionReplication (QueryReplication s) = False"

fun isQueryReplication :: "replicationState \<Rightarrow> bool" where
  "isQueryReplication (CollectionReplication s) = False"
| "isQueryReplication (QueryReplication s) = True"

text \<open>
  Modelled from the spec: \<open>Registry\<close> (./registry is not among the sources), a key to
  value map with \<open>has\<close>, \<open>get\<close>, \<open>set\<close>, \<open>delete\<close> and \<open>forEach\<close>. It is an
  association list here: \<open>get\<close> is \<open>map_of\<close>, \<open>set\<close> is \<open>AList.update\<close>,
  \<open>delete\<close> is \<open>AList.delete\<close>. A query key is the serialized \<open>queryKeys\<close>, or
  \<open>undefined\<close> (\<open>None\<close>) when serialization failed.
\<close>

type_synonym queryKey = "string option"

record manager = subscribableBase +
  localDB :: "string list"
  fastLocalDB :: "string list"
  queryStates :: "(queryKey \<times> ref) list"
  replicationStates :: "(string \<times> ref) list"
  activeCollectionReplications :: "(queryKey \<times> ref) list"
  activeQueryReplications :: "(queryKey \<times> ref) list"
  errors :: "error list"
  queries :: "ref \<Rightarrow> query option"
  replications :: "ref \<Rightarrow> replicationState option"
  nextRef :: ref



definition pushError :: "error \<Rightarrow> manager \<Rightarrow> manager" where
  "pushError e m = m\<lparr>errors := errors m @ [e]\<rparr>"


definition getCollection :: "string \<Rightarrow> manager \<Rightarrow> string option \<times> manager" where
  "getCollection name m =
     (if name \<in> set (localDB m) then (Some name, m)
      else (None, pushError (''Collection with name: '' @ name @ '' not found.'') m))"


subsection \<open>The constructor of Query, later revision\<close>




subsection \<open>Registering replications\<close>





text \<open>
  \<open>deregisterReplication\<close> cancels the state and deletes the endpoint.
  \<open>updateReplication\<close> is a method call on the object behind a reference, seen by
  every registry that holds the reference.
\<close>

definition deregisterReplication :: "string \<Rightarrow> manager \<Rightarrow> manager" where
  "deregisterReplication ep m =
     (case map_of (replicationStates m) ep of
        None \<Rightarrow> m
      | Some r \<Rightarrow>
          m\<lparr>replications := (\<lambda>x. if x = r then map_option cancelReplication (replications m r)
                                  else replications m x),
            replicationStates := AList.delete ep (replicationStates m)\<rparr>)"


subsection \<open>Pausing by reference count\<close>



subsection \<open>Registering and deregistering queries\<close>










subsection \<open>A manager to compute with\<close>





section \<open>Properties of QueryReplicationState\<close>

subsection \<open>Reading the effects of a cycle\<close>

lemma requests_simps:
  "requests [] = []"
  "requests (Http r # t) = r # requests t"
  "requests (ActiveNext b # t) = requests t"
  "requests (CollectionFetchUnsynced # t) = requests t"
  "requests (BulkUpsert ds # t) = requests t"
  "requests (ErrorNext e # t) = requests t"
  "requests (t @ u) = requests t @ requests u"
  by (simp_all add: requests_def)

lemma errorsPushed_simps:
  "errorsPushed [] = []"
  "errorsPushed (Http r # t) = errorsPushed t"
  "errorsPushed (ActiveNext b # t) = errorsPushed t"
  "errorsPushed (CollectionFetchUnsynced # t) = errorsPushed t"
  "errorsPushed (BulkUpsert ds # t) = errorsPushed t"
  "errorsPushed (ErrorNext e # t) = e # errorsPushed t"
  "errorsPushed (t @ u) = errorsPushed t @ errorsPushed u"
  by (simp_all add: errorsPushed_def)

subsection \<open>The try block\<close>

lemma sendRequest_effects:
  "snd (sendRequest c inc exc lm) =
     [Http (if inc = [] then Get lm
            else if length exc < length inc then Post None (Some exc)
            else Post (Some inc) None)]"
  by (simp add: sendRequest_def fetchLastModified_def fetchUnsyncedRemoteIDs_def)


lemma upsertDocuments_requests: "requests (snd (upsertDocuments c data)) = []"
  by (simp add: upsertDocuments_def requests_simps split: sum.split option.split)

lemma upsertDocuments_errors: "errorsPushed (snd (upsertDocuments c data)) = []"
  by (simp add: upsertDocuments_def errorsPushed_simps split: sum.split option.split)

lemma handleResponse_requests: "requests (snd (snd (handleResponse c resp s))) = []"
  by (cases resp)
     (simp_all add: handleResponse_def Let_def requests_simps upsertDocuments_requests)

lemma handleResponse_errors: "errorsPushed (snd (snd (handleResponse c resp s))) = []"
  by (cases resp)
     (simp_all add: handleResponse_def Let_def errorsPushed_simps upsertDocuments_errors)

lemma handleResponse_syncCompleted:
  "syncCompleted s \<Longrightarrow> syncCompleted (fst (snd (handleResponse c resp s)))"
  by (cases resp) (simp_all add: handleResponse_def Let_def)


lemma handleResponse_frame:
  "isCanceled (fst (snd (handleResponse c resp s))) = isCanceled s"
  "paused (fst (snd (handleResponse c resp s))) = paused s"
  "active (fst (snd (handleResponse c resp s))) = active s"
  by (cases resp; simp add: handleResponse_def Let_def)+

lemma tryBlock_effects:
  "\<exists>t. snd (snd (tryBlock c inc exc lm s)) = snd (sendRequest c inc exc lm) @ t \<and>
       requests t = [] \<and> errorsPushed t = []"
proof (cases "fst (sendRequest c inc exc lm)")
  case (Inl e)
  then show ?thesis by (simp add: tryBlock_def requests_simps errorsPushed_simps)
next
  case (Inr resp)
  obtain r s1 t where h: "handleResponse c resp s = (r, s1, t)"
    by (cases "handleResponse c resp s")
  have "requests t = []" "errorsPushed t = []"
    using handleResponse_requests[of c resp s] handleResponse_errors[of c resp s] h by simp_all
  then show ?thesis using Inr h by (simp add: tryBlock_def)
qed

lemma tryBlock_state:
  "fst (snd (tryBlock c inc exc lm s)) =
     (case fst (sendRequest c inc exc lm) of
        Inl e \<Rightarrow> s
      | Inr resp \<Rightarrow> fst (snd (handleResponse c resp s)))"
  by (simp add: tryBlock_def split: sum.split prod.split)


lemma tryBlock_syncCompleted:
  "syncCompleted s \<Longrightarrow> syncCompleted (fst (snd (tryBlock c inc exc lm s)))"
  by (simp add: tryBlock_state handleResponse_syncCompleted split: sum.split)


subsection \<open>One cycle\<close>

lemma fetchUnsynced_own:
  assumes "\<not> isStopped s" and "\<not> active s" and "\<not> syncCompleted s"
  shows "fetchUnsynced c s =
    (case tryBlock c (getUnsyncedRemoteIDs c) (getSyncedRemoteIDs c) (lastModified c)
            (s\<lparr>active := True\<rparr>) of
       (r, s2, t) \<Rightarrow>
         (s2\<lparr>active := False\<rparr>,
          ActiveNext True # t @ (case r of Inl e \<Rightarrow> [ErrorNext e] | Inr u \<Rightarrow> []) @
          [ActiveNext False]))"
proof -
  let ?tb = "tryBlock c (getUnsyncedRemoteIDs c) (getSyncedRemoteIDs c) (lastModified c)
               (s\<lparr>active := True\<rparr>)"
  obtain r s2 t where tb: "?tb = (r, s2, t)" by (cases ?tb)
  show ?thesis using assms tb by (cases r) (simp_all add: fetchUnsynced_def Let_def)
qed



lemma fetchUnsynced_requests:
  assumes "\<not> isStopped s" and "\<not> active s" and "\<not> syncCompleted s"
  shows "requests (snd (fetchUnsynced c s)) =
     [if getUnsyncedRemoteIDs c = [] then Get (lastModified c)
      else if length (getSyncedRemoteIDs c) < length (getUnsyncedRemoteIDs c)
           then Post None (Some (getSyncedRemoteIDs c))
           else Post (Some (getUnsyncedRemoteIDs c)) None]"
proof -
  let ?inc = "getUnsyncedRemoteIDs c" and ?exc = "getSyncedRemoteIDs c" and ?lm = "lastModified c"
  let ?tb = "tryBlock c ?inc ?exc ?lm (s\<lparr>active := True\<rparr>)"
  obtain r s2 t where tb: "?tb = (r, s2, t)" by (cases ?tb)
  obtain t' where t: "t = snd (sendRequest c ?inc ?exc ?lm) @ t'" "requests t' = []"
    using tryBlock_effects[of c ?inc ?exc ?lm "s\<lparr>active := True\<rparr>"] tb by auto
  have "requests (snd (fetchUnsynced c s)) = requests t"
    using fetchUnsynced_own[OF assms, of c] tb by (cases r) (simp_all add: requests_simps)
  then show ?thesis using t by (simp add: requests_simps sendRequest_effects)
qed








lemma exampleReplication_idle:
  "\<not> isStopped exampleReplication" "\<not> active exampleReplication"
  "\<not> syncCompleted exampleReplication"
  by (simp_all add: exampleReplication_def isStopped_def)



subsection \<open>Request strategy\<close>

text \<open>
  Claim C1, as the code has it. A cycle that issues its own request (not stopped, not
  active, \<open>syncCompleted\<close> false) sends exactly one request: a modified-after-cursor
  \<open>GET\<close> whenever the list of unsynced IDs is empty, whatever the synced IDs are;
  otherwise a \<open>POST\<close> by \<open>exclude\<close> when the synced IDs are strictly fewer than the
  unsynced ones, and a \<open>POST\<close> by \<open>include\<close> when the synced IDs are at least as
  many. The shorter list is the one sent.
\<close>

theorem fetchUnsynced_request_strategy:
  assumes "\<not> isStopped s" and "\<not> active s" and "\<not> syncCompleted s"
  shows "(getUnsyncedRemoteIDs c = [] \<longrightarrow>
            requests (snd (fetchUnsynced c s)) = [Get (lastModified c)]) \<and>
         (getUnsyncedRemoteIDs c \<noteq> [] \<and>
          length (getSyncedRemoteIDs c) < length (getUnsyncedRemoteIDs c) \<longrightarrow>
            requests (snd (fetchUnsynced c s)) = [Post None (Some (getSyncedRemoteIDs c))]) \<and>
         (getUnsyncedRemoteIDs c \<noteq> [] \<and>
          length (getUnsyncedRemoteIDs c) \<le> length (getSyncedRemoteIDs c) \<longrightarrow>
            requests (snd (fetchUnsynced c s)) = [Post (Some (getUnsyncedRemoteIDs c)) None])"
  using fetchUnsynced_requests[OF assms, of c] by simp

theorem fetchUnsynced_request_strategy_witness:
  "\<not> isStopped exampleReplication \<and> \<not> active exampleReplication \<and>
   \<not> syncCompleted exampleReplication \<and>
   requests (snd (fetchUnsynced (exampleCollaborators [] [4, 5] (Inr (Some [9]))) exampleReplication))
     = [Get 7] \<and>
   requests (snd (fetchUnsynced (exampleCollaborators [1, 2] [3] (Inr (Some [9]))) exampleReplication))
     = [Post None (Some [3])] \<and>
   requests (snd (fetchUnsynced (exampleCollaborators [1] [2, 3] (Inr (Some [9]))) exampleReplication))
     = [Post (Some [1]) None]"
  using exampleReplication_idle
    fetchUnsynced_request_strategy[OF exampleReplication_idle, of "exampleCollaborators [] [4, 5] (Inr (Some [9]))"]
    fetchUnsynced_request_strategy[OF exampleReplication_idle, of "exampleCollaborators [1, 2] [3] (Inr (Some [9]))"]
    fetchUnsynced_request_strategy[OF exampleReplication_idle, of "exampleCollaborators [1] [2, 3] (Inr (Some [9]))"]
  by (simp add: exampleCollaborators_def)

text \<open>
  Claim C1 as stated asks for \<open>exclude\<close> when the synced IDs outnumber the unsynced
  ones. With one unsynced ID and two synced IDs the cycle requests by \<open>include\<close>.
\<close>

theorem fetchUnsynced_exclude_when_synced_outnumber_counterexample:
  "\<not> (length [1::nat] < length [2, 3::nat] \<longrightarrow>
      requests (snd (fetchUnsynced (exampleCollaborators [1] [2, 3] (Inr (Some [9])))
                      exampleReplication)) = [Post None (Some [2, 3])])"
  using fetchUnsynced_requests[OF exampleReplication_idle, of "exampleCollaborators [1] [2, 3] (Inr (Some [9]))"]
  by (simp add: exampleCollaborators_def)

subsection \<open>Sync exhaustion\<close>



subsection \<open>Errors are caught, active is cleared\<close>



section \<open>Properties of Query\<close>

subsection \<open>Objects\<close>

lemma map_of_spread:
  "k \<notin> fst ` set b \<Longrightarrow> map_of (spread a b) k = map_of a k"
  unfolding spread_def
  by (induction b arbitrary: a) (auto simp: AList.update_conv')

lemma getProp_spread_other:
  "k \<notin> fst ` set b \<Longrightarrow> getProp (spread a b) k = getProp a k"
  by (simp add: getProp_def map_of_spread)

lemma getProp_spread_single:
  "getProp (spread a [(k, v)]) k = v"
  by (simp add: getProp_def spread_def AList.update_conv')

subsection \<open>Streams\<close>






lemma set_distinctFrom: "set (distinctFrom eq prev xs) \<subseteq> set xs"
  by (induction xs arbitrary: prev) auto

lemma set_distinctUntilChanged: "set (distinctUntilChanged eq xs) \<subseteq> set xs"
  using set_distinctFrom[of eq] by (cases xs) auto



subsection \<open>The comparator\<close>







subsection \<open>Result stability\<close>




lemma exampleQuery_params: "getParams exampleQuery = Some exampleParams"
  by (simp add: getParams_def exampleQuery_def exampleParams_def)

lemma exampleQuery_first_result:
  "findStream handleSearchActive exampleEnv (paramsStream exampleQuery) =
     [evaluateWith handleSearchActive exampleEnv 0 exampleParams]"
  by (simp add: findStream_def paramsStream_def exampleQuery_def exampleParams_def)


subsection \<open>Count and hits\<close>

lemma handleSearchActive_count:
  "count (handleSearchActive env mp) = length (hits (handleSearchActive env mp))"
  by (simp add: handleSearchActive_def Let_def)

lemma handleSearchActive2_count:
  "count (handleSearchActive2 env mp) = length (hits (handleSearchActive2 env mp))"
  by (simp add: handleSearchActive2_def Let_def)

lemma handleSearchInactive_count:
  "count (handleSearchInactive env mp op) = length (hits (handleSearchInactive env mp op))"
  by (simp add: handleSearchInactive_def Let_def)

lemma evaluateWith_count:
  assumes "\<And>mp. count (sp env mp) = length (hits (sp env mp))"
  shows "count (evaluateWith sp env n p) = length (hits (evaluateWith sp env n p))"
  using assms by (simp add: evaluateWith_def Let_def handleSearchInactive_count)

lemma findStream_count:
  assumes "\<And>mp. count (sp env mp) = length (hits (sp env mp))"
    and "r \<in> set (findStream sp env ps)"
  shows "count r = length (hits r)"
  using assms(2) evaluateWith_count[of sp env, OF assms(1)] by (auto simp: findStream_def)

text \<open>
  Claim C9. On the search-active path of either file and on the search-inactive path,
  where the post-query hook has been applied, \<open>count\<close> is the number of hits; so it is
  in every result published on the result stream.
\<close>

theorem count_is_number_of_hits:
  "count (handleSearchActive env modifiedParams) =
     length (hits (handleSearchActive env modifiedParams)) \<and>
   count (handleSearchActive2 env modifiedParams) =
     length (hits (handleSearchActive2 env modifiedParams)) \<and>
   count (handleSearchInactive env modifiedParams originalParams) =
     length (hits (handleSearchInactive env modifiedParams originalParams)) \<and>
   (\<forall>r \<in> set (resultStream env q). count r = length (hits r)) \<and>
   (\<forall>r \<in> set (resultStream2 env q). count r = length (hits r))"
proof -
  have "count r = length (hits r)" if "r \<in> set (resultStream env q)" for r
    using that set_distinctUntilChanged[of resultComparator]
      findStream_count[of handleSearchActive env r, OF handleSearchActive_count]
    unfolding resultStream_def by blast
  moreover have "count r = length (hits r)" if "r \<in> set (resultStream2 env q)" for r
    using that set_distinctUntilChanged[of resultComparator]
      findStream_count[of handleSearchActive2 env r, OF handleSearchActive2_count]
    unfolding resultStream2_def by blast
  ultimately show ?thesis
    using handleSearchActive_count handleSearchActive2_count handleSearchInactive_count by blast
qed

lemma exampleQuery_result:
  "resultStream exampleEnv exampleQuery = [evaluateWith handleSearchActive exampleEnv 0 exampleParams]"
  by (simp add: resultStream_def exampleQuery_first_result)

lemma example_inactive_hits:
  "map hitId (hits (evaluateWith handleSearchActive exampleEnv 0 exampleParams)) = [JStr ''a'', JStr ''c'']"
  by (simp add: evaluateWith_def exampleEnv_def exampleParams_def isSearchActive_def getProp_def
      handleSearchInactive_def selectorOrEmpty_def exampleDocs_def Let_def)

theorem count_is_number_of_hits_witness:
  "evaluateWith handleSearchActive exampleEnv 0 exampleParams \<in> set (resultStream exampleEnv exampleQuery) \<and>
   map hitId (hits (evaluateWith handleSearchActive exampleEnv 0 exampleParams)) = [JStr ''a'', JStr ''c''] \<and>
   count (evaluateWith handleSearchActive exampleEnv 0 exampleParams) = 2"
proof -
  let ?r = "evaluateWith handleSearchActive exampleEnv 0 exampleParams"
  have mem: "?r \<in> set (resultStream exampleEnv exampleQuery)"
    by (simp add: exampleQuery_result)
  have "count ?r = length (hits ?r)"
    using count_is_number_of_hits[of exampleEnv exampleParams exampleParams exampleQuery] mem by blast
  also have "\<dots> = length (map hitId (hits ?r))" by simp
  also have "\<dots> = 2" by (simp only: example_inactive_hits) simp
  finally show ?thesis using mem example_inactive_hits by simp
qed

subsection \<open>Parameter snapshots\<close>

lemma getParams_paramsNext: "getParams (paramsNext p q) = Some p"
  by (simp add: getParams_def paramsNext_def)

lemma currentParams_paramsNext: "currentParams (paramsNext p q) = p"
  by (simp add: currentParams_def getParams_paramsNext)

lemma updateParams_log:
  "paramsLog (updateParams additional q) =
     paramsLog q @ [currentParams (updateParams additional q)]"
  by (simp add: updateParams_def Let_def currentParams_paramsNext) (simp add: paramsNext_def)

lemma updateParams2_log:
  "paramsLog (updateParams2 additional q) =
     paramsLog q @ [currentParams (updateParams2 additional q)]"
  by (simp add: updateParams2_def Let_def currentParams_paramsNext) (simp add: paramsNext_def)

lemma updateParams_clauses: "whereClauses (updateParams additional q) = whereClauses q"
  by (simp add: updateParams_def Let_def paramsNext_def)

lemma updateParams2_clauses: "whereClauses (updateParams2 additional q) = whereClauses q"
  by (simp add: updateParams2_def Let_def paramsNext_def)

lemma updateParams_selector:
  "getProp (currentParams (updateParams additional q)) ''selector'' =
     JObj (selectorOf (whereClauses q))"
  by (simp add: updateParams_def Let_def currentParams_paramsNext getProp_spread_single)

lemma updateParams2_selector:
  "getProp (currentParams (updateParams2 additional q)) ''selector'' =
     JObj (andSelectorOf (whereClauses q))"
  by (simp add: updateParams2_def Let_def currentParams_paramsNext getProp_spread_single)

lemma updateParams_frame:
  "k \<noteq> ''selector'' \<Longrightarrow> k \<notin> fst ` set additional \<Longrightarrow>
     getProp (currentParams (updateParams additional q)) k = getProp (currentParams q) k"
  by (simp add: updateParams_def Let_def currentParams_paramsNext getProp_spread_other)

lemma updateParams2_frame:
  "k \<noteq> ''selector'' \<Longrightarrow> k \<notin> fst ` set additional \<Longrightarrow>
     getProp (currentParams (updateParams2 additional q)) k = getProp (currentParams q) k"
  by (simp add: updateParams2_def Let_def currentParams_paramsNext getProp_spread_other)

lemma currentParams_cong:
  "paramsLog q0 = paramsLog q \<Longrightarrow> currentParams q0 = currentParams q"
  by (simp add: currentParams_def getParams_def)

subsection \<open>where\<close>

lemma where_q_params: "\<exists>q0. where_q f v q = updateParams [] q0 \<and> paramsLog q0 = paramsLog q"
  by (auto simp: where_q_def split: option.split)








lemma where_q_frame:
  assumes "k \<noteq> ''selector''"
  shows "getProp (currentParams (where_q f v q)) k = getProp (currentParams q) k"
proof -
  obtain q0 where q0: "where_q f v q = updateParams [] q0" "paramsLog q0 = paramsLog q"
    using where_q_params by blast
  show ?thesis unfolding q0(1)
    using assms currentParams_cong[OF q0(2)] by (simp add: updateParams_frame)
qed










subsection \<open>What a mutation leaves alone\<close>

lemma sortParams_keys:
  "sortParams args = Inr additional \<Longrightarrow> fst ` set additional = {''sortBy'', ''sortDirection''}"
  by (cases args) (auto split: if_splits)

lemma sort_q_total:
  "sort_q (SortBy sortBy sortDirection) q =
     Inr (updateParams [(''sortBy'', JStr sortBy), (''sortDirection'', sortDirection)] q)"
  "sortObj \<noteq> [] \<Longrightarrow> \<exists>q'. sort_q (SortObj sortObj) q = Inr q'"
  "sort_q2 (SortBy sortBy sortDirection) q =
     Inr (updateParams2 [(''sortBy'', JStr sortBy), (''sortDirection'', sortDirection)] q)"
  "sortObj \<noteq> [] \<Longrightarrow> \<exists>q'. sort_q2 (SortObj sortObj) q = Inr q'"
  by (simp_all add: sort_q_def sort_q2_def)

lemma sort_q_frame:
  assumes "sort_q args q = Inr q'"
  shows "paramsLog q' = paramsLog q @ [currentParams q'] \<and>
      getProp (currentParams q') ''search'' = getProp (currentParams q) ''search'' \<and>
      (\<forall>k. k \<notin> {''sortBy'', ''sortDirection'', ''selector''} \<longrightarrow>
           getProp (currentParams q') k = getProp (currentParams q) k) \<and>
      getProp (currentParams q') ''selector'' = JObj (selectorOf (whereClauses q')) \<and>
      whereClauses q' = whereClauses q"
proof -
  from assms obtain additional where a: "sortParams args = Inr additional"
    and q': "q' = updateParams additional q"
    by (auto simp: sort_q_def split: sum.splits)
  have keys: "fst ` set additional = {''sortBy'', ''sortDirection''}"
    using sortParams_keys[OF a] .
  show ?thesis unfolding q'
    using keys
    by (simp add: updateParams_log[symmetric] updateParams_frame updateParams_selector
        updateParams_clauses)
qed

lemma sort_q2_frame:
  assumes "sort_q2 args q = Inr q'"
  shows "paramsLog q' = paramsLog q @ [currentParams q'] \<and>
      getProp (currentParams q') ''search'' = getProp (currentParams q) ''search'' \<and>
      (\<forall>k. k \<notin> {''sortBy'', ''sortDirection'', ''selector''} \<longrightarrow>
           getProp (currentParams q') k = getProp (currentParams q) k) \<and>
      getProp (currentParams q') ''selector'' = JObj (andSelectorOf (whereClauses q')) \<and>
      whereClauses q' = whereClauses q"
proof -
  from assms obtain additional where a: "sortParams args = Inr additional"
    and q': "q' = updateParams2 additional q"
    by (auto simp: sort_q2_def split: sum.splits)
  have keys: "fst ` set additional = {''sortBy'', ''sortDirection''}"
    using sortParams_keys[OF a] .
  show ?thesis unfolding q'
    using keys
    by (simp add: updateParams2_log[symmetric] updateParams2_frame updateParams2_selector
        updateParams2_clauses)
qed

lemma search_q_frame:
  "paramsLog (search_q query q) = paramsLog q @ [currentParams (search_q query q)] \<and>
   getProp (currentParams (search_q query q)) ''sortBy'' = getProp (currentParams q) ''sortBy'' \<and>
   getProp (currentParams (search_q query q)) ''sortDirection'' =
     getProp (currentParams q) ''sortDirection'' \<and>
   (\<forall>k. k \<notin> {''search'', ''selector''} \<longrightarrow>
        getProp (currentParams (search_q query q)) k = getProp (currentParams q) k) \<and>
   getProp (currentParams (search_q query q)) ''selector'' =
     JObj (selectorOf (whereClauses (search_q query q))) \<and>
   whereClauses (search_q query q) = whereClauses q"
  unfolding search_q_def
  by (simp add: updateParams_log[symmetric] updateParams_frame updateParams_selector
      updateParams_clauses)

lemma search_q2_frame:
  "paramsLog (search_q2 query q) = paramsLog q @ [currentParams (search_q2 query q)] \<and>
   getProp (currentParams (search_q2 query q)) ''sortBy'' = getProp (currentParams q) ''sortBy'' \<and>
   getProp (currentParams (search_q2 query q)) ''sortDirection'' =
     getProp (currentParams q) ''sortDirection'' \<and>
   (\<forall>k. k \<notin> {''search'', ''selector''} \<longrightarrow>
        getProp (currentParams (search_q2 query q)) k = getProp (currentParams q) k) \<and>
   getProp (currentParams (search_q2 query q)) ''selector'' =
     JObj (andSelectorOf (whereClauses (search_q2 query q))) \<and>
   whereClauses (search_q2 query q) = whereClauses q"
  unfolding search_q2_def
  by (simp add: updateParams2_log[symmetric] updateParams2_frame updateParams2_selector
      updateParams2_clauses)

lemma where2_frame:
  assumes "k \<noteq> ''selector''"
  shows "getProp (currentParams (where2 n f v q)) k = getProp (currentParams q) k"
proof -
  have "currentParams (q\<lparr>whereClauses := n (whereClauses q @ [\<lparr>field = f, val = v\<rparr>])\<rparr>) =
      currentParams q"
    by (rule currentParams_cong) simp
  then show ?thesis using assms by (simp add: where2_def updateParams2_frame)
qed

text \<open>
  Claim C10, for both files. \<open>sort\<close>, when it returns, has pushed one snapshot that
  agrees with the snapshot before it on \<open>search\<close> and on every property other than
  \<open>sortBy\<close>, \<open>sortDirection\<close> and \<open>selector\<close>; \<open>search\<close> has pushed one that agrees on
  \<open>sortBy\<close>, \<open>sortDirection\<close> and every property other than \<open>search\<close> and
  \<open>selector\<close>; \<open>where\<close> changes \<open>selector\<close> only. The selector of the new snapshot is
  the one derived from the clause list. \<open>sort\<close> returns for a field and a direction and
  for an object with at least one property.
\<close>

theorem mutation_carries_other_fields_over:
  "(\<forall>q'. sort_q args q = Inr q' \<longrightarrow>
      paramsLog q' = paramsLog q @ [currentParams q'] \<and>
      getProp (currentParams q') ''search'' = getProp (currentParams q) ''search'' \<and>
      (\<forall>k. k \<notin> {''sortBy'', ''sortDirection'', ''selector''} \<longrightarrow>
           getProp (currentParams q') k = getProp (currentParams q) k) \<and>
      getProp (currentParams q') ''selector'' = JObj (selectorOf (whereClauses q'))) \<and>
   (\<forall>q'. sort_q2 args q = Inr q' \<longrightarrow>
      paramsLog q' = paramsLog q @ [currentParams q'] \<and>
      getProp (currentParams q') ''search'' = getProp (currentParams q) ''search'' \<and>
      (\<forall>k. k \<notin> {''sortBy'', ''sortDirection'', ''selector''} \<longrightarrow>
           getProp (currentParams q') k = getProp (currentParams q) k) \<and>
      getProp (currentParams q') ''selector'' = JObj (andSelectorOf (whereClauses q'))) \<and>
   ((\<exists>sortBy sortDirection. args = SortBy sortBy sortDirection) \<or>
    (\<exists>sortObj. args = SortObj sortObj \<and> sortObj \<noteq> []) \<longrightarrow>
      (\<exists>q'. sort_q args q = Inr q') \<and> (\<exists>q'. sort_q2 args q = Inr q')) \<and>
   (paramsLog (search_q query q) = paramsLog q @ [currentParams (search_q query q)] \<and>
    getProp (currentParams (search_q query q)) ''sortBy'' = getProp (currentParams q) ''sortBy'' \<and>
    getProp (currentParams (search_q query q)) ''sortDirection'' =
      getProp (currentParams q) ''sortDirection'' \<and>
    (\<forall>k. k \<notin> {''search'', ''selector''} \<longrightarrow>
         getProp (currentParams (search_q query q)) k = getProp (currentParams q) k) \<and>
    getProp (currentParams (search_q query q)) ''selector'' =
      JObj (selectorOf (whereClauses (search_q query q)))) \<and>
   (paramsLog (search_q2 query q) = paramsLog q @ [currentParams (search_q2 query q)] \<and>
    getProp (currentParams (search_q2 query q)) ''sortBy'' = getProp (currentParams q) ''sortBy'' \<and>
    getProp (currentParams (search_q2 query q)) ''sortDirection'' =
      getProp (currentParams q) ''sortDirection'' \<and>
    (\<forall>k. k \<notin> {''search'', ''selector''} \<longrightarrow>
         getProp (currentParams (search_q2 query q)) k = getProp (currentParams q) k) \<and>
    getProp (currentParams (search_q2 query q)) ''selector'' =
      JObj (andSelectorOf (whereClauses (search_q2 query q)))) \<and>
   (\<forall>k. k \<noteq> ''selector'' \<longrightarrow>
      getProp (currentParams (where_q f v q)) k = getProp (currentParams q) k \<and>
      getProp (currentParams (where2 normalizeWhereClauses f v q)) k =
        getProp (currentParams q) k)"
proof -
  have total: "(\<exists>q'. sort_q args q = Inr q') \<and> (\<exists>q'. sort_q2 args q = Inr q')"
    if "(\<exists>sortBy sortDirection. args = SortBy sortBy sortDirection) \<or>
        (\<exists>sortObj. args = SortObj sortObj \<and> sortObj \<noteq> [])"
    using that by (auto simp: sort_q_def sort_q2_def)
  have s1: "\<forall>q'. sort_q args q = Inr q' \<longrightarrow>
      paramsLog q' = paramsLog q @ [currentParams q'] \<and>
      getProp (currentParams q') ''search'' = getProp (currentParams q) ''search'' \<and>
      (\<forall>k. k \<notin> {''sortBy'', ''sortDirection'', ''selector''} \<longrightarrow>
           getProp (currentParams q') k = getProp (currentParams q) k) \<and>
      getProp (currentParams q') ''selector'' = JObj (selectorOf (whereClauses q'))"
    using sort_q_frame[of args q] by simp
  have s2: "\<forall>q'. sort_q2 args q = Inr q' \<longrightarrow>
      paramsLog q' = paramsLog q @ [currentParams q'] \<and>
      getProp (currentParams q') ''search'' = getProp (currentParams q) ''search'' \<and>
      (\<forall>k. k \<notin> {''sortBy'', ''sortDirection'', ''selector''} \<longrightarrow>
           getProp (currentParams q') k = getProp (currentParams q) k) \<and>
      getProp (currentParams q') ''selector'' = JObj (andSelectorOf (whereClauses q'))"
    using sort_q2_frame[of args q] by simp
  have w: "\<forall>k. k \<noteq> ''selector'' \<longrightarrow>
      getProp (currentParams (where_q f v q)) k = getProp (currentParams q) k \<and>
      getProp (currentParams (where2 normalizeWhereClauses f v q)) k =
        getProp (currentParams q) k"
    using where_q_frame[where f=f and v=v and q=q]
      where2_frame[where n=normalizeWhereClauses and f=f and v=v and q=q]
    by simp
  show ?thesis
    apply (intro conjI)
    using s1 apply assumption
    using s2 apply assumption
    using total apply blast
    using search_q_frame[of query q] apply simp
    using search_q_frame[of query q] apply simp
    using search_q_frame[of query q] apply simp
    using search_q_frame[of query q] apply simp
    using search_q_frame[of query q] apply simp
    using search_q2_frame[of query q] apply simp
    using search_q2_frame[of query q] apply simp
    using search_q2_frame[of query q] apply simp
    using search_q2_frame[of query q] apply simp
    using search_q2_frame[of query q] apply simp
    using w apply assumption
    done
qed

lemma example_sorted_after_search:
  "sort_q (SortObj [(''price'', JStr ''asc''), (''name'', JStr ''desc'')])
      (search_q (JStr ''mi'') exampleQuery) =
   Inr (updateParams [(''sortBy'', JStr ''name''), (''sortDirection'', JStr ''desc'')]
          (search_q (JStr ''mi'') exampleQuery))"
  by (simp add: sort_q_def)

lemma example_search_pushed:
  "getProp (currentParams (search_q (JStr ''mi'') exampleQuery)) ''search'' = JStr ''mi''"
  by (simp add: search_q_def updateParams_def Let_def currentParams_paramsNext
      getProp_def spread_def AList.update_conv')



theorem mutation_carries_other_fields_over_witness:
  "sort_q (SortObj [(''price'', JStr ''asc''), (''name'', JStr ''desc'')])
      (search_q (JStr ''mi'') exampleQuery) =
   Inr (updateParams [(''sortBy'', JStr ''name''), (''sortDirection'', JStr ''desc'')]
          (search_q (JStr ''mi'') exampleQuery)) \<and>
   getProp (currentParams
      (updateParams [(''sortBy'', JStr ''name''), (''sortDirection'', JStr ''desc'')]
         (search_q (JStr ''mi'') exampleQuery))) ''search'' = JStr ''mi'' \<and>
   getProp (currentParams (search_q (JStr ''mi'') exampleQuery)) ''sortBy'' = JStr ''name'' \<and>
   getProp (currentParams (search_q (JStr ''mi'') exampleQuery)) ''sortDirection'' = JStr ''asc'' \<and>
   getProp (currentParams (where_q ''stock'' JNull (search_q (JStr ''mi'') exampleQuery)))
     ''search'' = JStr ''mi''"
proof -
  let ?q1 = "search_q (JStr ''mi'') exampleQuery"
  let ?q2 = "updateParams [(''sortBy'', JStr ''name''), (''sortDirection'', JStr ''desc'')] ?q1"
  have cur: "getProp (currentParams exampleQuery) ''sortBy'' = JStr ''name''"
    "getProp (currentParams exampleQuery) ''sortDirection'' = JStr ''asc''"
    by (simp_all add: currentParams_def exampleQuery_params exampleParams_def getProp_def)
  note s = mutation_carries_other_fields_over[where
      args="SortObj [(''price'', JStr ''asc''), (''name'', JStr ''desc'')]" and q="?q1",
      THEN conjunct1, THEN spec, of ?q2, THEN mp, OF example_sorted_after_search,
      THEN conjunct2, THEN conjunct1]
  note se = mutation_carries_other_fields_over[where query="JStr ''mi''" and q=exampleQuery,
      THEN conjunct2, THEN conjunct2, THEN conjunct2, THEN conjunct1, THEN conjunct2]
  note w = mutation_carries_other_fields_over[where f="''stock''" and v=JNull and q="?q1",
      THEN conjunct2, THEN conjunct2, THEN conjunct2, THEN conjunct2, THEN conjunct2,
      THEN spec, of "''search''", THEN mp, THEN conjunct1]
  have 1: "getProp (currentParams ?q2) ''search'' = JStr ''mi''"
    using s example_search_pushed by simp
  have 2: "getProp (currentParams ?q1) ''sortBy'' = JStr ''name''"
    using se[THEN conjunct1] cur(1) by simp
  have 3: "getProp (currentParams ?q1) ''sortDirection'' = JStr ''asc''"
    using se[THEN conjunct2, THEN conjunct1] cur(2) by simp
  have 4: "getProp (currentParams (where_q ''stock'' JNull ?q1)) ''search'' = JStr ''mi''"
    using w example_search_pushed by simp
  show ?thesis using example_sorted_after_search 1 2 3 4 by simp
qed

section \<open>Properties of Manager\<close>

subsection \<open>What each step leaves alone\<close>




lemma getCollection_state:
  "snd (getCollection name m) = m \<or> (\<exists>e. snd (getCollection name m) = pushError e m)"
  by (auto simp: getCollection_def)












subsection \<open>Registering a query\<close>












subsection \<open>Registering a replication again\<close>










subsection \<open>Pausing\<close>












end
